theory Spec2Isabelle
  imports Complex_Main "HOL-Library.Sublist"
begin

section \<open>The grid layout page: constants and data\<close>

text \<open>
  The component \<open>GridLayoutPage\<close> keeps two pieces of React state, the widget store
  \<open>widgets\<close> and the \<open>draggingWidget\<close> of the drag in flight, and registers
  \<open>mousemove\<close>/\<open>mouseup\<close> listeners on the document while a resize handle is held.
  Every handler is embedded as a function from the state before to the state after; what a
  handler reads from the browser (pointer coordinates, the bounding rectangle of the event
  target, \<open>Math.random()\<close>, \<open>Date.now()\<close>, the textarea of a calculator) is an argument.

  Grid coordinates and spans are integers (they are produced by \<open>Math.floor\<close> and by the
  library items' literals); pixel coordinates are reals. JavaScript strings are modelled as
  \<open>string\<close>, a character standing for a UTF-16 code unit below 256.
\<close>

definition GRID_ROWS :: int where
  "GRID_ROWS = 10"

definition GRID_COLS :: int where
  "GRID_COLS = 8"

definition CELL_SIZE :: real where
  "CELL_SIZE = 100"

definition SIMPLE_NAMES :: "string list" where
  "SIMPLE_NAMES =
     [''cat'', ''dog'', ''tree'', ''bird'',
      ''fish'', ''star'', ''moon'', ''sun'',
      ''leaf'', ''cloud'', ''rain'', ''wind'']"

text \<open>
  A JavaScript number, as far as this page can tell numbers apart: not-a-number, the two
  infinities, and the finite values (a finite double is a rational, given by its exact value).
\<close>

datatype jsnum = NaN | PosInf | NegInf | Fin real

datatype widget_type = score_type | calculator

record LibraryItem =
  item_id :: string
  item_width :: int
  item_height :: int
  item_title :: string
  item_type :: widget_type
  item_score :: "jsnum option"
  item_name :: "string option"
  item_formula :: "string option"

record Widget =
  id_w :: string
  x :: int
  y :: int
  width :: int
  height :: int
  type :: widget_type
  title :: string
  name :: string
  score :: jsnum
  formula :: string

record DraggingWidget = Widget +
  isNew :: bool
  offsetX :: real
  offsetY :: real

text \<open>
  A drag event as the handlers read it: the pointer and the top-left corner of
  \<open>e.currentTarget.getBoundingClientRect()\<close>. A mouse event gives the pointer only.
\<close>

record DragEvent =
  clientX :: real
  clientY :: real
  rect_left :: real
  rect_top :: real

record MouseEvent =
  mouseX :: real
  mouseY :: real

text \<open>
  What \<open>handleResize\<close> leaves behind: the closure \<open>handleMouseMove\<close>, which has captured
  the widget as rendered when the handle was pressed (\<open>startWidth\<close> and \<open>startHeight\<close>
  are its \<open>width\<close> and \<open>height\<close>) and the pointer at that moment.
\<close>

record ResizeListener =
  target :: Widget
  startX :: real
  startY :: real

record state =
  widgets :: "Widget list"
  draggingWidget :: "DraggingWidget option"
  listeners :: "ResizeListener list"

definition initial :: state where
  "initial = \<lparr>widgets = [], draggingWidget = None, listeners = []\<rparr>"

section \<open>Utility functions\<close>

text \<open>\<open>Math.floor(Math.random() * 101)\<close>, for the draw \<open>r\<close> of \<open>Math.random()\<close>.\<close>

definition generateRandomScore :: "real \<Rightarrow> jsnum" where
  "generateRandomScore r = Fin (of_int \<lfloor>r * 101\<rfloor>)"

text \<open>
  \<open>availableNames[Math.floor(Math.random() * availableNames.length)] || 'x'\<close>: an index
  outside the array reads \<open>undefined\<close>, and \<open>undefined\<close> and the empty string both give
  \<open>'x'\<close>.
\<close>

definition generateRandomName :: "real \<Rightarrow> Widget list \<Rightarrow> string" where
  "generateRandomName r ws =
     (let usedNames = set (map name ws);
          availableNames = filter (\<lambda>n. n \<notin> usedNames) SIMPLE_NAMES;
          i = \<lfloor>r * of_nat (length availableNames)\<rfloor>
      in if 0 \<le> i \<and> nat i < length availableNames \<and> availableNames ! nat i \<noteq> []
         then availableNames ! nat i else ''x'')"

text \<open>Decimal digits of a natural number, as a template literal prints \<open>Date.now()\<close>.\<close>

definition digit :: "nat \<Rightarrow> char" where
  "digit n = ''0123456789'' ! n"

fun show_nat :: "nat \<Rightarrow> string" where
  "show_nat n = (if n < 10 then [digit n] else show_nat (n div 10) @ [digit (n mod 10)])"

declare show_nat.simps [simp del]

text \<open>
  The library as one render builds it; \<open>r\<close> is the draw behind the score item's
  \<open>generateRandomScore()\<close>.
\<close>

definition libraryItems :: "real \<Rightarrow> LibraryItem list" where
  "libraryItems r =
     [\<lparr>item_id = ''score'', item_width = 2, item_height = 1, item_title = ''Score'',
       item_type = score_type, item_score = Some (generateRandomScore r),
       item_name = Some [], item_formula = None\<rparr>,
      \<lparr>item_id = ''calc'', item_width = 4, item_height = 2, item_title = ''Calculator'',
       item_type = calculator, item_score = None,
       item_name = None, item_formula = Some []\<rparr>]"

text \<open>
  \<open>handleDragStart\<close> spreads a library item into a \<open>DraggingWidget\<close>. The properties the
  item lacks are \<open>undefined\<close> there: \<open>x\<close> and \<open>y\<close> are never read before the drop
  overwrites them, so are \<open>name\<close> and \<open>score\<close>; every reader of \<open>formula\<close> writes
  \<open>widget.formula || ...\<close>, which takes \<open>undefined\<close> for the empty string.
\<close>

definition item_as_widget :: "LibraryItem \<Rightarrow> Widget" where
  "item_as_widget it =
     \<lparr>id_w = item_id it, x = 0, y = 0, width = item_width it, height = item_height it,
      type = item_type it, title = item_title it,
      name = (case item_name it of None \<Rightarrow> [] | Some n \<Rightarrow> n),
      score = (case item_score it of None \<Rightarrow> NaN | Some v \<Rightarrow> v),
      formula = (case item_formula it of None \<Rightarrow> [] | Some f \<Rightarrow> f)\<rparr>"

section \<open>Drag and drop\<close>

definition handleDragStart :: "DragEvent \<Rightarrow> Widget \<Rightarrow> bool \<Rightarrow> state \<Rightarrow> state" where
  "handleDragStart e widget new s =
     s\<lparr>draggingWidget :=
         Some (Widget.extend widget
                 (DraggingWidget.fields new (clientX e - rect_left e) (clientY e - rect_top e)))\<rparr>"

text \<open>The candidate cell of both \<open>handleDragOver\<close> and \<open>handleDrop\<close>, one axis at a time.\<close>

definition candidate :: "real \<Rightarrow> real \<Rightarrow> real \<Rightarrow> int \<Rightarrow> int \<Rightarrow> int" where
  "candidate client origin offset cells extent =
     max 0 (min \<lfloor>(client - origin - offset) / CELL_SIZE\<rfloor> (cells - extent))"

definition hits :: "int \<Rightarrow> int \<Rightarrow> int \<Rightarrow> int \<Rightarrow> Widget \<Rightarrow> bool" where
  "hits cx cy w h existing \<longleftrightarrow>
     cx < x existing + width existing \<and> cx + w > x existing \<and>
     cy < y existing + height existing \<and> cy + h > y existing"

definition handleDragOver :: "DragEvent \<Rightarrow> state \<Rightarrow> state" where
  "handleDragOver e s =
     (case draggingWidget s of
        None \<Rightarrow> s
      | Some d \<Rightarrow>
          (let cx = candidate (clientX e) (rect_left e) (offsetX d) GRID_COLS (width d);
               cy = candidate (clientY e) (rect_top e) (offsetY d) GRID_ROWS (height d);
               wouldOverlap =
                 list_ex (\<lambda>existing. id_w existing \<noteq> id_w d \<and>
                            hits cx cy (width d) (height d) existing) (widgets s)
           in if \<not> wouldOverlap \<and> \<not> isNew d
              then s\<lparr>widgets :=
                       map (\<lambda>w. if id_w w = id_w d then w\<lparr>x := cx, y := cy\<rparr> else w)
                         (widgets s)\<rparr>
              else s))"

text \<open>
  \<open>handleDrop\<close>; \<open>now\<close> is \<open>Date.now()\<close>, \<open>r1\<close> and \<open>r2\<close> are the draws of
  \<open>generateRandomName\<close> and \<open>generateRandomScore\<close>. The object that the source stores
  also carries \<open>isNew\<close> and the two offsets of the drag; nothing reads them from the
  store (\<open>handleDragStart\<close> overwrites all three), so the stored widget is the
  \<open>Widget\<close> part.
\<close>

definition handleDrop :: "DragEvent \<Rightarrow> nat \<Rightarrow> real \<Rightarrow> real \<Rightarrow> state \<Rightarrow> state" where
  "handleDrop e now r1 r2 s =
     (case draggingWidget s of
        None \<Rightarrow> s
      | Some d \<Rightarrow>
          (let cx = candidate (clientX e) (rect_left e) (offsetX d) GRID_COLS (width d);
               cy = candidate (clientY e) (rect_top e) (offsetY d) GRID_ROWS (height d)
           in if isNew d
              then
                (let newWidget = (Widget.truncate d)
                       \<lparr>id_w := ''widget-'' @ show_nat now, x := cx, y := cy,
                        name := (if type d = score_type
                                 then generateRandomName r1 (widgets s) else []),
                        score := (if type d = score_type
                                  then generateRandomScore r2 else Fin 0)\<rparr>;
                     wouldOverlap =
                       list_ex (hits cx cy (width newWidget) (height newWidget)) (widgets s)
                 in if \<not> wouldOverlap
                    then s\<lparr>widgets := widgets s @ [newWidget], draggingWidget := None\<rparr>
                    else s\<lparr>draggingWidget := None\<rparr>)
              else s\<lparr>draggingWidget := None\<rparr>))"

section \<open>Resize\<close>

definition handleResize :: "MouseEvent \<Rightarrow> Widget \<Rightarrow> state \<Rightarrow> state" where
  "handleResize e widget s =
     (if type widget = calculator then s
      else s\<lparr>listeners :=
               listeners s @ [\<lparr>target = widget, startX = mouseX e, startY = mouseY e\<rparr>]\<rparr>)"

definition handleMouseMove :: "ResizeListener \<Rightarrow> MouseEvent \<Rightarrow> Widget list \<Rightarrow> Widget list" where
  "handleMouseMove l e prev =
     (let widget = target l;
          deltaX = \<lfloor>(mouseX e - startX l) / CELL_SIZE\<rfloor>;
          deltaY = \<lfloor>(mouseY e - startY l) / CELL_SIZE\<rfloor>;
          newWidth = max 2 (min (width widget + deltaX) (GRID_COLS - x widget));
          newHeight = max 1 (min (height widget + deltaY) (GRID_ROWS - y widget))
      in map (\<lambda>w. if id_w w = id_w widget
                   then w\<lparr>width := newWidth, height := newHeight\<rparr> else w) prev)"

text \<open>
  A \<open>mousemove\<close> on the document runs every registered closure, in the order of
  registration; a \<open>mouseup\<close> runs every \<open>handleMouseUp\<close>, each of which unregisters its pair.
\<close>

definition mousemove :: "MouseEvent \<Rightarrow> state \<Rightarrow> state" where
  "mousemove e s = s\<lparr>widgets := fold (\<lambda>l. handleMouseMove l e) (listeners s) (widgets s)\<rparr>"

definition mouseup :: "state \<Rightarrow> state" where
  "mouseup s = s\<lparr>listeners := []\<rparr>"

section \<open>Field edits and delete\<close>

text \<open>
  \<open>String.prototype.toLowerCase\<close> on code units below 256: the ASCII capitals and the
  Latin-1 capitals (all of \<open>0xC0..0xDE\<close> but the multiplication sign) move up by 32.
\<close>

definition toLowerCase_char :: "char \<Rightarrow> char" where
  "toLowerCase_char c =
     (let n = (of_char c :: nat)
      in if (65 \<le> n \<and> n \<le> 90) \<or> (192 \<le> n \<and> n \<le> 222 \<and> n \<noteq> 215)
         then char_of (n + 32) else c)"

definition toLowerCase :: "string \<Rightarrow> string" where
  "toLowerCase = map toLowerCase_char"

definition is_a_z :: "char \<Rightarrow> bool" where
  "is_a_z c \<longleftrightarrow> 97 \<le> (of_char c :: nat) \<and> (of_char c :: nat) \<le> 122"

definition is_A_Z :: "char \<Rightarrow> bool" where
  "is_A_Z c \<longleftrightarrow> 65 \<le> (of_char c :: nat) \<and> (of_char c :: nat) \<le> 90"

definition is_0_9 :: "char \<Rightarrow> bool" where
  "is_0_9 c \<longleftrightarrow> 48 \<le> (of_char c :: nat) \<and> (of_char c :: nat) \<le> 57"

text \<open>
  The white space of \<open>\s\<close> and of \<open>parseInt\<close> (white space and line terminators):
  tab, line feed, vertical tab, form feed, carriage return, space, no-break space.
\<close>

definition is_space :: "char \<Rightarrow> bool" where
  "is_space c \<longleftrightarrow> (of_char c :: nat) \<in> {9, 10, 11, 12, 13, 32, 160}"

text \<open>The \<open>onChange\<close> of the name input of \<open>widget\<close>, for the text \<open>v\<close> typed.\<close>

definition name_onChange :: "Widget \<Rightarrow> string \<Rightarrow> state \<Rightarrow> state" where
  "name_onChange widget v s =
     (let nm = filter is_a_z (toLowerCase v)
      in if list_all (\<lambda>w. id_w w = id_w widget \<or> name w \<noteq> nm) (widgets s)
         then s\<lparr>widgets :=
                  map (\<lambda>w. if id_w w = id_w widget then w\<lparr>name := nm\<rparr> else w) (widgets s)\<rparr>
         else s)"

text \<open>
  \<open>parseInt(v, 10)\<close>: skip leading white space, read a sign, read the longest run of
  decimal digits; no digit gives \<open>NaN\<close>. The value is the exact integer (the host rounds
  it to a double, which no clamp to \<open>[0, 100]\<close> can tell apart).
\<close>

definition digits_value :: "string \<Rightarrow> nat" where
  "digits_value ds = foldl (\<lambda>a c. 10 * a + (of_char c - 48)) 0 ds"

definition parseInt :: "string \<Rightarrow> jsnum" where
  "parseInt v =
     (let S = dropWhile is_space v;
          (neg, S') = (case S of
                         c # cs \<Rightarrow> if c = CHR ''-'' then (True, cs)
                                    else if c = CHR ''+'' then (False, cs) else (False, S)
                       | [] \<Rightarrow> (False, S));
          Z = takeWhile is_0_9 S'
      in if Z = [] then NaN
         else Fin (of_int (if neg then - int (digits_value Z) else int (digits_value Z))))"

text \<open>\<open>Math.min\<close> and \<open>Math.max\<close> of two numbers: \<open>NaN\<close> if either is.\<close>

fun Math_min :: "jsnum \<Rightarrow> jsnum \<Rightarrow> jsnum" where
  "Math_min NaN b = NaN"
| "Math_min a NaN = NaN"
| "Math_min NegInf b = NegInf"
| "Math_min a NegInf = NegInf"
| "Math_min PosInf b = b"
| "Math_min a PosInf = a"
| "Math_min (Fin p) (Fin q) = Fin (min p q)"

fun Math_max :: "jsnum \<Rightarrow> jsnum \<Rightarrow> jsnum" where
  "Math_max NaN b = NaN"
| "Math_max a NaN = NaN"
| "Math_max PosInf b = PosInf"
| "Math_max a PosInf = PosInf"
| "Math_max NegInf b = b"
| "Math_max a NegInf = a"
| "Math_max (Fin p) (Fin q) = Fin (max p q)"

definition score_onChange :: "Widget \<Rightarrow> string \<Rightarrow> state \<Rightarrow> state" where
  "score_onChange widget v s =
     s\<lparr>widgets :=
         map (\<lambda>w. if id_w w = id_w widget
                   then w\<lparr>score := Math_max (Fin 0) (Math_min (Fin 100) (parseInt v))\<rparr>
                   else w) (widgets s)\<rparr>"

definition random_onClick :: "Widget \<Rightarrow> real \<Rightarrow> state \<Rightarrow> state" where
  "random_onClick widget r s =
     s\<lparr>widgets :=
         map (\<lambda>w. if id_w w = id_w widget then w\<lparr>score := generateRandomScore r\<rparr> else w)
           (widgets s)\<rparr>"

definition formula_onChange :: "Widget \<Rightarrow> string \<Rightarrow> state \<Rightarrow> state" where
  "formula_onChange widget v s =
     s\<lparr>widgets :=
         map (\<lambda>w. if id_w w = id_w widget then w\<lparr>formula := v\<rparr> else w) (widgets s)\<rparr>"

text \<open>
  \<open>insertIntoFormula\<close>; \<open>textarea\<close> is what \<open>document.querySelector\<close> finds: nothing, or
  an element with its \<open>selectionStart\<close> and \<open>value\<close>.
\<close>

definition insertIntoFormula :: "string \<Rightarrow> string \<Rightarrow> (nat \<times> string) option \<Rightarrow> state \<Rightarrow> state" where
  "insertIntoFormula widgetId variable textarea s =
     (case textarea of
        None \<Rightarrow> s
      | Some (cursorPos, text) \<Rightarrow>
          (let newFormula = take cursorPos text @ variable @ drop cursorPos text
           in s\<lparr>widgets :=
                  map (\<lambda>w. if id_w w = widgetId then w\<lparr>formula := newFormula\<rparr> else w)
                    (widgets s)\<rparr>))"

definition handleDelete :: "string \<Rightarrow> state \<Rightarrow> state" where
  "handleDelete widgetId s = s\<lparr>widgets := filter (\<lambda>w. id_w w \<noteq> widgetId) (widgets s)\<rparr>"

text \<open>
  Both readers of a stored score write \<open>score || 0\<close> (\<open>widget.score || 0\<close> in the input,
  \<open>Number(w.score) || 0\<close> for a formula variable): \<open>NaN\<close> and zero read as zero.
\<close>

definition or_0 :: "jsnum \<Rightarrow> jsnum" where
  "or_0 v = (if v = NaN \<or> v = Fin 0 then Fin 0 else v)"

section \<open>The page as a transition system\<close>

text \<open>
  The events the rendered page can deliver, with what each reads from the browser. A widget
  is addressed by its position in the rendered store; the handlers get the widget found
  there, as the closures of the render do. The name and score inputs, the Random button and
  the resize handle exist on score widgets only, the formula textarea and the variable
  buttons on calculators only; an event on an element that is not rendered changes nothing.
\<close>

datatype event =
    DragStartLibrary nat real DragEvent
  | DragStartWidget nat DragEvent
  | DragOver DragEvent
  | Drop DragEvent nat real real
  | ResizeMouseDown nat MouseEvent
  | MouseMove MouseEvent
  | MouseUp
  | Delete nat
  | NameChange nat string
  | ScoreChange nat string
  | RandomClick nat real
  | FormulaChange nat string
  | InsertVariable nat nat "(nat \<times> string) option"

fun step :: "event \<Rightarrow> state \<Rightarrow> state" where
  "step (DragStartLibrary i r e) s =
     (if i < length (libraryItems r)
      then handleDragStart e (item_as_widget (libraryItems r ! i)) True s else s)"
| "step (DragStartWidget i e) s =
     (if i < length (widgets s) then handleDragStart e (widgets s ! i) False s else s)"
| "step (DragOver e) s = handleDragOver e s"
| "step (Drop e now r1 r2) s = handleDrop e now r1 r2 s"
| "step (ResizeMouseDown i e) s =
     (if i < length (widgets s) \<and> type (widgets s ! i) \<noteq> calculator
      then handleResize e (widgets s ! i) s else s)"
| "step (MouseMove e) s = mousemove e s"
| "step MouseUp s = mouseup s"
| "step (Delete i) s =
     (if i < length (widgets s) then handleDelete (id_w (widgets s ! i)) s else s)"
| "step (NameChange i v) s =
     (if i < length (widgets s) \<and> type (widgets s ! i) \<noteq> calculator
      then name_onChange (widgets s ! i) v s else s)"
| "step (ScoreChange i v) s =
     (if i < length (widgets s) \<and> type (widgets s ! i) \<noteq> calculator
      then score_onChange (widgets s ! i) v s else s)"
| "step (RandomClick i r) s =
     (if i < length (widgets s) \<and> type (widgets s ! i) \<noteq> calculator
      then random_onClick (widgets s ! i) r s else s)"
| "step (FormulaChange i v) s =
     (if i < length (widgets s) \<and> type (widgets s ! i) = calculator
      then formula_onChange (widgets s ! i) v s else s)"
| "step (InsertVariable i j textarea) s =
     (if i < length (widgets s) \<and> type (widgets s ! i) = calculator \<and>
         j < length (widgets s) \<and> type (widgets s ! j) = score_type \<and> name (widgets s ! j) \<noteq> []
      then insertIntoFormula (id_w (widgets s ! i)) (name (widgets s ! j)) textarea s else s)"

definition run :: "event list \<Rightarrow> state \<Rightarrow> state" where
  "run evs s = fold step evs s"

section \<open>Formula evaluation\<close>

text \<open>
  \<open>evaluateFormula\<close> hands the formula to the host: \<open>new Function(...params, body)\<close>
  compiles any JavaScript, and \<open>toFixed\<close> prints large numbers through the host's
  number-to-string conversion. Both are arguments of the embedding.

  A call of the compiled function throws or returns a value. \<open>isNaN\<close> and \<open>Number\<close>
  only see the value through its conversion to a number: a number converts to itself, any
  other value to the number it carries, unless the conversion throws (a BigInt under
  \<open>isNaN\<close>).
\<close>

datatype jsval = JNumber jsnum | JOther "jsnum option"

datatype outcome = Throws | Returns jsval

record host =
  Function_call :: "string list \<Rightarrow> string \<Rightarrow> jsnum list \<Rightarrow> outcome"
  Number_toString :: "real \<Rightarrow> string"

fun ToNumber :: "jsval \<Rightarrow> jsnum option" where
  "ToNumber (JNumber n) = Some n"
| "ToNumber (JOther c) = c"

text \<open>The character class \<open>[a-z0-9\s+\-*/().]\<close> under the flag \<open>i\<close>.\<close>

definition allowed :: "char \<Rightarrow> bool" where
  "allowed c \<longleftrightarrow> is_a_z c \<or> is_A_Z c \<or> is_0_9 c \<or> is_space c \<or> c \<in> set ''+-*/().''"

text \<open>\<open>/^[a-z0-9\s+\-*/().]+$/i.test(formula)\<close>: one character at least, all in the class
  (\<open>fml\<close> is the source's \<open>formula\<close>, a name the record field has taken).\<close>

definition whitelisted :: "string \<Rightarrow> bool" where
  "whitelisted fml \<longleftrightarrow> fml \<noteq> [] \<and> list_all allowed fml"

text \<open>
  \<open>Number.prototype.toFixed(2)\<close>. A finite \<open>v\<close> below \<open>10^21\<close> in magnitude is printed
  as the integer \<open>n\<close> nearest to \<open>100 * |v|\<close> (the larger one on a tie), padded to three
  digits, with a point before the last two and the sign of \<open>v\<close> in front.
\<close>

definition pad3 :: "string \<Rightarrow> string" where
  "pad3 m = replicate (3 - length m) (CHR ''0'') @ m"

definition toFixed2 :: "host \<Rightarrow> jsnum \<Rightarrow> string" where
  "toFixed2 h v =
     (case v of
        NaN \<Rightarrow> ''NaN''
      | PosInf \<Rightarrow> ''Infinity''
      | NegInf \<Rightarrow> ''-Infinity''
      | Fin q \<Rightarrow>
          (let sgn = (if q < 0 then ''-'' else []); a = \<bar>q\<bar>
           in if a \<ge> 10 ^ 21 then sgn @ Number_toString h a
              else (let n = nat \<lfloor>a * 100 + 1 / 2\<rfloor>; m = pad3 (show_nat n); k = length m
                    in sgn @ take (k - 2) m @ ''.'' @ drop (k - 2) m)))"

definition evaluateFormula :: "host \<Rightarrow> string \<Rightarrow> (string \<times> jsnum) list \<Rightarrow> string" where
  "evaluateFormula h fml variables =
     (if \<not> whitelisted fml then ''Error''
      else
        (let params = map fst variables;
             args = map snd variables
         in case Function_call h params (''return '' @ fml) args of
              Throws \<Rightarrow> ''Error''
            | Returns result \<Rightarrow>
                (case ToNumber result of
                   None \<Rightarrow> ''Error''
                 | Some n \<Rightarrow> if n = NaN then ''Error'' else toFixed2 h n)))"

subsection \<open>A host for the arithmetic fragment\<close>

text \<open>
  What ECMAScript prescribes for \<open>new Function(...params, 'return ' + e)(...args)\<close> when
  \<open>e\<close> is built from the parameters, unsigned decimal integer literals, the four binary
  operators and parentheses, separated by spaces and tabs, and double arithmetic is exact:
  every argument, literal and intermediate result is an integer of magnitude at most
  \<open>2^53\<close>, no negative zero arises, and only the final operation may divide by zero.
  \<open>arith_eval\<close> answers \<open>None\<close> for every call outside this fragment.
\<close>

datatype binop = Add | Sub | Mul | Div

datatype token = TNum nat | TId string | TOp binop | TLParen | TRParen

definition is_ident_part :: "char \<Rightarrow> bool" where
  "is_ident_part c \<longleftrightarrow> is_a_z c \<or> is_A_Z c \<or> is_0_9 c"

function lex :: "string \<Rightarrow> token list option" where
  "lex [] = Some []"
| "lex (c # cs) =
     (if c = CHR '' '' \<or> c = CHR 0x09 then lex cs
      else if c = CHR ''+'' then map_option ((#) (TOp Add)) (lex cs)
      else if c = CHR ''-'' then map_option ((#) (TOp Sub)) (lex cs)
      else if c = CHR ''*'' then map_option ((#) (TOp Mul)) (lex cs)
      else if c = CHR ''/'' then map_option ((#) (TOp Div)) (lex cs)
      else if c = CHR ''('' then map_option ((#) TLParen) (lex cs)
      else if c = CHR '')'' then map_option ((#) TRParen) (lex cs)
      else if is_0_9 c then
        (let ds = c # takeWhile is_0_9 cs; rest = dropWhile is_0_9 cs
         in if (c = CHR ''0'' \<and> ds \<noteq> [c]) \<or> (rest \<noteq> [] \<and> is_ident_part (hd rest)) then None
            else map_option ((#) (TNum (digits_value ds))) (lex rest))
      else if is_a_z c \<or> is_A_Z c then
        map_option ((#) (TId (c # takeWhile is_ident_part cs))) (lex (dropWhile is_ident_part cs))
      else None)"
  by pat_completeness auto
termination
  by (relation "measure length") (auto simp: less_Suc_eq_le length_dropWhile_le)

definition safe :: "int \<Rightarrow> bool" where
  "safe i \<longleftrightarrow> \<bar>i\<bar> \<le> 2 ^ 53"

fun binop_eval :: "binop \<Rightarrow> int \<Rightarrow> int \<Rightarrow> jsnum option" where
  "binop_eval Add p q = (if safe (p + q) then Some (Fin (of_int (p + q))) else None)"
| "binop_eval Sub p q = (if safe (p - q) then Some (Fin (of_int (p - q))) else None)"
| "binop_eval Mul p q =
     (if p * q = 0 \<and> (p < 0 \<or> q < 0) then None
      else if safe (p * q) then Some (Fin (of_int (p * q))) else None)"
| "binop_eval Div p q =
     (if q = 0 then Some (if p = 0 then NaN else if 0 < p then PosInf else NegInf)
      else if p = 0 then (if 0 < q then Some (Fin 0) else None)
      else if q dvd p then Some (Fin (of_int (p div q))) else None)"

definition as_safe_int :: "jsnum \<Rightarrow> int option" where
  "as_safe_int v =
     (case v of
        Fin q \<Rightarrow> if q = of_int \<lfloor>q\<rfloor> \<and> safe \<lfloor>q\<rfloor> then Some \<lfloor>q\<rfloor> else None
      | _ \<Rightarrow> None)"

text \<open>
  Operator-precedence evaluation with a stack of values and a stack of pending operators
  (\<open>None\<close> marks an open parenthesis).
\<close>

fun prec :: "binop \<Rightarrow> nat" where
  "prec Add = 1"
| "prec Sub = 1"
| "prec Mul = 2"
| "prec Div = 2"

fun apply_top :: "binop \<Rightarrow> jsnum list \<Rightarrow> jsnum list option" where
  "apply_top f (b # a # vs) =
     (case (as_safe_int a, as_safe_int b) of
        (Some p, Some q) \<Rightarrow> map_option (\<lambda>v. v # vs) (binop_eval f p q)
      | _ \<Rightarrow> None)"
| "apply_top f vs = None"

fun reduce_ops :: "nat \<Rightarrow> binop option list \<Rightarrow> jsnum list \<Rightarrow> (binop option list \<times> jsnum list) option" where
  "reduce_ops p [] vs = Some ([], vs)"
| "reduce_ops p (None # os) vs = Some (None # os, vs)"
| "reduce_ops p (Some f # os) vs =
     (if p \<le> prec f
      then (case apply_top f vs of None \<Rightarrow> None | Some vs' \<Rightarrow> reduce_ops p os vs')
      else Some (Some f # os, vs))"

fun eval_tokens :: "(string \<rightharpoonup> jsnum) \<Rightarrow> token list \<Rightarrow> bool \<Rightarrow> binop option list \<Rightarrow> jsnum list \<Rightarrow> jsnum option" where
  "eval_tokens env [] operand os vs =
     (if operand then None
      else case reduce_ops 0 os vs of Some ([], [v]) \<Rightarrow> Some v | _ \<Rightarrow> None)"
| "eval_tokens env (TNum n # ts) operand os vs =
     (if operand \<and> safe (int n) then eval_tokens env ts False os (Fin (of_nat n) # vs) else None)"
| "eval_tokens env (TId v # ts) operand os vs =
     (case env v of
        Some a \<Rightarrow> if operand then eval_tokens env ts False os (a # vs) else None
      | None \<Rightarrow> None)"
| "eval_tokens env (TLParen # ts) operand os vs =
     (if operand then eval_tokens env ts True (None # os) vs else None)"
| "eval_tokens env (TRParen # ts) operand os vs =
     (if operand then None
      else case reduce_ops 0 os vs of
             Some (None # os', vs') \<Rightarrow> eval_tokens env ts False os' vs'
           | _ \<Rightarrow> None)"
| "eval_tokens env (TOp f # ts) operand os vs =
     (if operand then None
      else case reduce_ops (prec f) os vs of
             Some (os', vs') \<Rightarrow> eval_tokens env ts True (Some f # os') vs'
           | None \<Rightarrow> None)"

definition reserved_words :: "string list" where
  "reserved_words =
     [''break'', ''case'', ''catch'', ''class'', ''const'', ''continue'', ''debugger'',
      ''default'', ''delete'', ''do'', ''else'', ''enum'', ''export'', ''extends'', ''false'',
      ''finally'', ''for'', ''function'', ''if'', ''import'', ''in'', ''instanceof'', ''new'',
      ''null'', ''return'', ''super'', ''switch'', ''this'', ''throw'', ''true'', ''try'',
      ''typeof'', ''var'', ''void'', ''while'', ''with'']"

definition is_param :: "string \<Rightarrow> bool" where
  "is_param p \<longleftrightarrow>
     (case p of [] \<Rightarrow> False
      | c # cs \<Rightarrow> (is_a_z c \<or> is_A_Z c) \<and> list_all is_ident_part cs \<and> p \<notin> set reserved_words)"

definition arith_eval :: "string list \<Rightarrow> string \<Rightarrow> jsnum list \<Rightarrow> outcome option" where
  "arith_eval params body args =
     (if length params = length args \<and> list_all is_param params \<and>
         list_all (\<lambda>a. as_safe_int a \<noteq> None) args \<and> take 7 body = ''return ''
      then (case lex (drop 7 body) of
              None \<Rightarrow> None
            | Some ts \<Rightarrow>
                map_option (\<lambda>v. Returns (JNumber v))
                  (eval_tokens (map_of (rev (zip params args))) ts True [] []))
      else None)"

text \<open>
  The host that answers as \<open>arith_eval\<close> does. Outside the fragment it is made to throw,
  and every number it returns is below \<open>10^21\<close>, so that its \<open>Number_toString\<close> is never
  consulted; it stands for a JavaScript host on the fragment only.
\<close>

definition arith_host :: host where
  "arith_host =
     \<lparr>Function_call = (\<lambda>params body args.
          case arith_eval params body args of Some r \<Rightarrow> r | None \<Rightarrow> Throws),
      Number_toString = (\<lambda>q. [])\<rparr>"

text \<open>
  The variables a calculator passes: \<open>Object.fromEntries\<close> of the named score widgets'
  \<open>[name, Number(score) || 0]\<close>. A later entry with the same key replaces the value and
  keeps the key's place.
\<close>

fun update_entry :: "string \<Rightarrow> jsnum \<Rightarrow> (string \<times> jsnum) list \<Rightarrow> (string \<times> jsnum) list" where
  "update_entry k v [] = [(k, v)]"
| "update_entry k v (p # ps) = (if fst p = k then (k, v) # ps else p # update_entry k v ps)"

definition fromEntries :: "(string \<times> jsnum) list \<Rightarrow> (string \<times> jsnum) list" where
  "fromEntries es = foldl (\<lambda>obj (k, v). update_entry k v obj) [] es"

definition variables_of :: "Widget list \<Rightarrow> (string \<times> jsnum) list" where
  "variables_of ws =
     fromEntries (map (\<lambda>w. (name w, or_0 (score w)))
                    (filter (\<lambda>w. type w = score_type \<and> name w \<noteq> []) ws))"

text \<open>The result line of a calculator: \<open>widget.formula || '0'\<close> is evaluated.\<close>

definition calculator_result :: "host \<Rightarrow> Widget list \<Rightarrow> Widget \<Rightarrow> string" where
  "calculator_result h ws widget =
     evaluateFormula h (if formula widget = [] then ''0'' else formula widget) (variables_of ws)"

section \<open>Notions of the specification\<close>


text \<open>The grid cells a rectangle covers, and those a widget occupies.\<close>

definition cells :: "int \<Rightarrow> int \<Rightarrow> int \<Rightarrow> int \<Rightarrow> (int \<times> int) set" where
  "cells cx cy w h = {cx ..< cx + w} \<times> {cy ..< cy + h}"

definition cells_of :: "Widget \<Rightarrow> (int \<times> int) set" where
  "cells_of w = cells (x w) (y w) (width w) (height w)"

text \<open>A widget inside the grid.\<close>

definition in_bounds :: "Widget \<Rightarrow> bool" where
  "in_bounds w \<longleftrightarrow> 0 \<le> x w \<and> 0 \<le> y w \<and> x w + width w \<le> GRID_COLS \<and> y w + height w \<le> GRID_ROWS"

text \<open>
  Two widgets overlap when the test of \<open>handleDragOver\<close> and \<open>handleDrop\<close> says so of
  the rectangle of the first against the second.
\<close>

definition overlap :: "Widget \<Rightarrow> Widget \<Rightarrow> bool" where
  "overlap a b \<longleftrightarrow> hits (x a) (y a) (width a) (height a) b"





text \<open>
  A string with exactly two decimal places: an optional minus sign, one digit or more, a
  point, two digits; and the number of hundredths such a string denotes.
\<close>

definition unsigned :: "string \<Rightarrow> string" where
  "unsigned str = (case str of c # cs \<Rightarrow> if c = CHR ''-'' then cs else str | [] \<Rightarrow> str)"

definition two_decimals :: "string \<Rightarrow> bool" where
  "two_decimals str \<longleftrightarrow>
     (let body = unsigned str; n = length body
      in 4 \<le> n \<and> list_all is_0_9 (take (n - 3) body) \<and> body ! (n - 3) = CHR ''.'' \<and>
         list_all is_0_9 (drop (n - 2) body))"

definition hundredths :: "string \<Rightarrow> nat" where
  "hundredths str = digits_value (filter is_0_9 str)"

text \<open>
  Pressing a resize handle; the values of \<open>Date.now()\<close> that the drops of a session read.
\<close>

fun is_resize :: "event \<Rightarrow> bool" where
  "is_resize (ResizeMouseDown i e) = True"
| "is_resize ev = False"

fun stamps :: "event list \<Rightarrow> nat list" where
  "stamps [] = []"
| "stamps (Drop e now r1 r2 # evs) = now # stamps evs"
| "stamps (ev # evs) = stamps evs"

text \<open>
  What sessions without a resize maintain, for the set \<open>T\<close> of the time stamps used so
  far: ids are distinct and made from those stamps, widgets with different ids do not
  overlap, the snapshot of an existing widget in \<open>draggingWidget\<close> has the size of the
  stored widget, and no resize listener is registered.
\<close>

definition placement_inv :: "nat set \<Rightarrow> state \<Rightarrow> bool" where
  "placement_inv T s \<longleftrightarrow>
     distinct (map id_w (widgets s)) \<and>
     (\<forall>w \<in> set (widgets s). \<exists>t \<in> T. id_w w = ''widget-'' @ show_nat t) \<and>
     (\<forall>a \<in> set (widgets s). \<forall>b \<in> set (widgets s). id_w a \<noteq> id_w b \<longrightarrow> \<not> overlap a b) \<and>
     (\<forall>d. draggingWidget s = Some d \<and> \<not> isNew d \<longrightarrow>
          (\<forall>w \<in> set (widgets s). id_w w = id_w d \<longrightarrow> width w = width d \<and> height w = height d)) \<and>
     listeners s = []"

text \<open>An edit that touches neither the id nor the rectangle of a widget.\<close>

definition keeps_place :: "(Widget \<Rightarrow> Widget) \<Rightarrow> bool" where
  "keeps_place f \<longleftrightarrow>
     (\<forall>w. id_w (f w) = id_w w \<and> x (f w) = x w \<and> y (f w) = y w \<and>
          width (f w) = width w \<and> height (f w) = height w)"

section \<open>Example sessions\<close>

text \<open>
  The grid is taken to lie at \<open>(100, 200)\<close> in the viewport. \<open>over_grid px py\<close> is a
  drag event on the grid with the pointer \<open>px\<close> pixels right of and \<open>py\<close> pixels below
  its corner; \<open>grab l t dx dy\<close> is a drag start on an element at \<open>(l, t)\<close>, grabbed
  \<open>dx\<close> and \<open>dy\<close> pixels inside it; \<open>mouse_over_grid\<close> is a mouse event placed
  like \<open>over_grid\<close>. The library items are drawn at \<open>(33, 77)\<close> and \<open>(110, 77)\<close>.

  The first session drops a calculator at the top-left cell and then a score widget at
  column 4, row 2.
\<close>

definition over_grid :: "real \<Rightarrow> real \<Rightarrow> DragEvent" where
  "over_grid px py = \<lparr>clientX = 100 + px, clientY = 200 + py, rect_left = 100, rect_top = 200\<rparr>"

definition grab :: "real \<Rightarrow> real \<Rightarrow> real \<Rightarrow> real \<Rightarrow> DragEvent" where
  "grab l t dx dy = \<lparr>clientX = l + dx, clientY = t + dy, rect_left = l, rect_top = t\<rparr>"

definition mouse_over_grid :: "real \<Rightarrow> real \<Rightarrow> MouseEvent" where
  "mouse_over_grid px py = \<lparr>mouseX = 100 + px, mouseY = 200 + py\<rparr>"

definition two_widgets :: "event list" where
  "two_widgets =
     [DragStartLibrary 1 0.5 (grab 110 77 10 10), Drop (over_grid 60 60) 1700000000001 0.01 0.42,
      DragStartLibrary 0 0.5 (grab 33 77 10 10), Drop (over_grid 460 260) 1700000000002 0.01 0.42]"

definition the_calculator :: Widget where
  "the_calculator =
     \<lparr>id_w = ''widget-1700000000001'', x = 0, y = 0, width = 4, height = 2, type = calculator,
      title = ''Calculator'', name = [], score = Fin 0, formula = []\<rparr>"

definition the_score :: Widget where
  "the_score =
     \<lparr>id_w = ''widget-1700000000002'', x = 4, y = 2, width = 2, height = 1, type = score_type,
      title = ''Score'', name = ''cat'', score = Fin 42, formula = []\<rparr>"

definition dragged_score_item :: DraggingWidget where
  "dragged_score_item =
     \<lparr>id_w = ''score'', x = 0, y = 0, width = 2, height = 1, type = score_type,
      title = ''Score'', name = [], score = Fin 50, formula = [],
      isNew = True, offsetX = 10, offsetY = 10\<rparr>"

text \<open>
  Two score widgets side by side, the left one then resized by two cells to the right; a
  session that moves the score widget of the first session; and a session in which a drag
  of a widget ends without a drop on the grid, the widget is resized to the full width, and a
  later drag-over of the grid finds the old snapshot.
\<close>

definition resize_session :: "event list" where
  "resize_session =
     [DragStartLibrary 0 0.5 (grab 33 77 10 10), Drop (over_grid 60 60) 1700000000001 0.01 0.42,
      DragStartLibrary 0 0.5 (grab 33 77 10 10), Drop (over_grid 260 60) 1700000000002 0.01 0.42,
      ResizeMouseDown 0 (mouse_over_grid 190 90), MouseMove (mouse_over_grid 390 90), MouseUp]"

definition move_session :: "event list" where
  "move_session =
     two_widgets @
     [DragStartWidget 1 (grab 500 400 50 50), DragOver (over_grid 250 150),
      DragOver (over_grid 650 450), Drop (over_grid 650 450) 1700000000003 0.01 0.42]"

definition stale_drag_session :: "event list" where
  "stale_drag_session =
     [DragStartLibrary 0 0.5 (grab 33 77 10 10), Drop (over_grid 60 60) 1700000000001 0.01 0.42,
      DragStartWidget 0 (grab 100 200 50 50),
      ResizeMouseDown 0 (mouse_over_grid 190 90), MouseMove (mouse_over_grid 790 90), MouseUp,
      DragOver (over_grid 700 50)]"

section \<open>Verification\<close>

subsection \<open>Shared facts\<close>


lemma cells_meet_hits: "cells cx cy w h \<inter> cells_of existing \<noteq> {} \<Longrightarrow> hits cx cy w h existing"
  by (auto simp: cells_def cells_of_def hits_def)

lemma not_hits_disjoint: "\<not> hits cx cy w h existing \<Longrightarrow> cells cx cy w h \<inter> cells_of existing = {}"
  using cells_meet_hits by blast

lemma hits_cells_meet:
  assumes "hits cx cy w h existing" and "0 < w" and "0 < h" and "0 < width existing" and "0 < height existing"
  shows "cells cx cy w h \<inter> cells_of existing \<noteq> {}"
proof -
  from assms have "(max cx (x existing), max cy (y existing)) \<in> cells cx cy w h \<inter> cells_of existing"
    by (auto simp: cells_def cells_of_def hits_def)
  then show ?thesis by blast
qed

lemma handleDragOver_length: "length (widgets (handleDragOver e s)) = length (widgets s)"
  by (simp add: handleDragOver_def Let_def split: option.split)

lemma sanitize_char:
  "is_a_z (toLowerCase_char c) \<longleftrightarrow> is_a_z c \<or> is_A_Z c"
proof (cases c)
  case (Char b0 b1 b2 b3 b4 b5 b6 b7)
  show ?thesis
    unfolding Char is_a_z_def is_A_Z_def toLowerCase_char_def Let_def
    by (cases b0; cases b1; cases b2; cases b3; cases b4; cases b5; cases b6; cases b7; simp)
qed

lemma sanitize_letters:
  "filter is_a_z (toLowerCase v) = map toLowerCase_char (filter (\<lambda>c. is_a_z c \<or> is_A_Z c) v)"
  by (induction v) (auto simp: toLowerCase_def sanitize_char)

lemma name_onChange_cases:
  "name_onChange widget v s =
     (if \<exists>w \<in> set (widgets s). id_w w \<noteq> id_w widget \<and> name w = filter is_a_z (toLowerCase v)
      then s
      else s\<lparr>widgets := map (\<lambda>w. if id_w w = id_w widget
                                 then w\<lparr>name := filter is_a_z (toLowerCase v)\<rparr> else w)
                          (widgets s)\<rparr>)"
  by (auto simp: name_onChange_def Let_def list_all_iff)

text \<open>Evaluating a session, handler by handler.\<close>

lemmas session_simps = run_def initial_def over_grid_def grab_def mouse_over_grid_def
  handleDragStart_def handleDragOver_def handleDrop_def handleResize_def handleMouseMove_def
  mousemove_def mouseup_def libraryItems_def item_as_widget_def candidate_def
  Widget.extend_def Widget.truncate_def DraggingWidget.fields_def
  GRID_COLS_def GRID_ROWS_def CELL_SIZE_def hits_def generateRandomName_def generateRandomScore_def
  SIMPLE_NAMES_def show_nat.simps digit_def Let_def

lemma run_append: "run (evs @ evs') s = run evs' (run evs s)"
  by (simp add: run_def)

lemma two_widgets_run:
  "run two_widgets initial =
     \<lparr>widgets = [the_calculator, the_score], draggingWidget = None, listeners = []\<rparr>"
  by (simp add: two_widgets_def the_calculator_def the_score_def session_simps)

lemma dragging_run:
  "run (two_widgets @ [DragStartLibrary 0 0.5 (grab 33 77 10 10)]) initial =
     \<lparr>widgets = [the_calculator, the_score], draggingWidget = Some dragged_score_item,
      listeners = []\<rparr>"
  unfolding run_append two_widgets_run
  by (simp add: dragged_score_item_def session_simps)

lemma move_session_run:
  "widgets (run move_session initial) = [the_calculator, the_score\<lparr>x := 6, y := 4\<rparr>]"
  unfolding move_session_def run_append two_widgets_run
  by (simp add: the_calculator_def the_score_def session_simps)

lemma resize_session_run:
  "run resize_session initial =
     \<lparr>widgets =
        [\<lparr>id_w = ''widget-1700000000001'', x = 0, y = 0, width = 4, height = 1,
          type = score_type, title = ''Score'', name = ''cat'', score = Fin 42, formula = []\<rparr>,
         \<lparr>id_w = ''widget-1700000000002'', x = 2, y = 0, width = 2, height = 1,
          type = score_type, title = ''Score'', name = ''dog'', score = Fin 42, formula = []\<rparr>],
      draggingWidget = None, listeners = []\<rparr>"
  by (simp add: resize_session_def session_simps)


lemma digit_is_0_9: "d < 10 \<Longrightarrow> is_0_9 (digit d)"
proof -
  assume "d < 10"
  then have "d \<in> {0, 1, 2, 3, 4, 5, 6, 7, 8, 9}" by auto
  then show ?thesis by (auto simp: digit_def is_0_9_def)
qed

lemma digit_value: "d < 10 \<Longrightarrow> of_char (digit d) - 48 = d"
proof -
  assume "d < 10"
  then have "d \<in> {0, 1, 2, 3, 4, 5, 6, 7, 8, 9}" by auto
  then show ?thesis by (auto simp: digit_def)
qed

lemma digits_value_snoc: "digits_value (ds @ [c]) = 10 * digits_value ds + (of_char c - 48)"
  by (simp add: digits_value_def)

lemma show_nat_digits: "list_all is_0_9 (show_nat n)"
proof (induction n rule: show_nat.induct)
  case (1 n)
  show ?case
  proof (cases "n < 10")
    case True
    then show ?thesis by (subst show_nat.simps) (simp add: digit_is_0_9)
  next
    case False
    with 1 show ?thesis by (subst show_nat.simps) (simp add: digit_is_0_9)
  qed
qed

lemma show_nat_value: "digits_value (show_nat n) = n"
proof (induction n rule: show_nat.induct)
  case (1 n)
  show ?case
  proof (cases "n < 10")
    case True
    then show ?thesis
      by (subst show_nat.simps) (simp add: digits_value_def digit_value)
  next
    case False
    with 1 have "digits_value (show_nat (n div 10)) = n div 10" by simp
    with False show ?thesis
      by (subst show_nat.simps) (simp add: digits_value_snoc digit_value)
  qed
qed

lemma digits_value_zeros: "digits_value (replicate k (CHR ''0'') @ m) = digits_value m"
proof -
  have "foldl (\<lambda>a c. 10 * a + (of_char c - 48)) 0 (replicate k (CHR ''0'')) = (0::nat)"
    by (induction k) simp_all
  then show ?thesis by (simp add: digits_value_def)
qed

lemma pad3_facts:
  assumes "list_all is_0_9 m"
  shows "list_all is_0_9 (pad3 m)" and "3 \<le> length (pad3 m)" and "digits_value (pad3 m) = digits_value m"
  using assms by (auto simp: pad3_def digits_value_zeros list_all_iff is_0_9_def)

lemma point_shape:
  assumes "list_all is_0_9 m" and "3 \<le> length m"
  shows "two_decimals (take (length m - 2) m @ ''.'' @ drop (length m - 2) m)"
    and "two_decimals (''-'' @ take (length m - 2) m @ ''.'' @ drop (length m - 2) m)"
    and "filter is_0_9 (take (length m - 2) m @ ''.'' @ drop (length m - 2) m) = m"
    and "filter is_0_9 (''-'' @ take (length m - 2) m @ ''.'' @ drop (length m - 2) m) = m"
proof -
  let ?a = "take (length m - 2) m" and ?b = "drop (length m - 2) m"
  from assms have a: "list_all is_0_9 ?a" and b: "list_all is_0_9 ?b"
    by (auto simp: list_all_iff dest: in_set_takeD in_set_dropD)
  from assms have la: "length ?a = length m - 2" and lb: "length ?b = 2" and ne: "?a \<noteq> []"
    by auto
  have nd: "\<not> is_0_9 (CHR ''.'')" "\<not> is_0_9 (CHR ''-'')"
    by (simp_all add: is_0_9_def)
  from ne a have hd: "hd ?a \<noteq> CHR ''-''"
    by (cases ?a) (auto simp: is_0_9_def)
  have fa: "filter is_0_9 ?a = ?a" and fb: "filter is_0_9 ?b = ?b"
    using a b by (simp_all add: list_all_iff)
  show "filter is_0_9 (?a @ ''.'' @ ?b) = m"
    using nd by (simp add: fa fb)
  show "filter is_0_9 (''-'' @ ?a @ ''.'' @ ?b) = m"
    using nd by (simp add: fa fb)
  have body: "4 \<le> length (?a @ ''.'' @ ?b) \<and>
        list_all is_0_9 (take (length (?a @ ''.'' @ ?b) - 3) (?a @ ''.'' @ ?b)) \<and>
        (?a @ ''.'' @ ?b) ! (length (?a @ ''.'' @ ?b) - 3) = CHR ''.'' \<and>
        list_all is_0_9 (drop (length (?a @ ''.'' @ ?b) - 2) (?a @ ''.'' @ ?b))"
    using a b la lb assms(2) by (simp add: nth_append)
  have u1: "unsigned (?a @ ''.'' @ ?b) = ?a @ ''.'' @ ?b"
    using ne hd by (cases ?a) (simp_all add: unsigned_def)
  have u2: "unsigned (''-'' @ ?a @ ''.'' @ ?b) = ?a @ ''.'' @ ?b"
    by (simp add: unsigned_def)
  show "two_decimals (?a @ ''.'' @ ?b)"
    unfolding two_decimals_def u1 Let_def using body by blast
  show "two_decimals (''-'' @ ?a @ ''.'' @ ?b)"
    unfolding two_decimals_def u2 Let_def using body by blast
qed

lemma toFixed2_finite:
  assumes "\<bar>q\<bar> < 10 ^ 21"
  shows "two_decimals (toFixed2 h (Fin q))"
    and "\<bar>real (hundredths (toFixed2 h (Fin q))) - 100 * \<bar>q\<bar>\<bar> \<le> 1 / 2"
    and "(hd (toFixed2 h (Fin q)) = CHR ''-'') = (q < 0)"
proof -
  define n where "n = nat \<lfloor>\<bar>q\<bar> * 100 + 1 / 2\<rfloor>"
  define m where "m = pad3 (show_nat n)"
  define pt where "pt = take (length m - 2) m @ ''.'' @ drop (length m - 2) m"
  have m: "list_all is_0_9 m" "3 \<le> length m" "digits_value m = n"
    unfolding m_def using pad3_facts [OF show_nat_digits, of n] by (simp_all add: show_nat_value)
  have "\<not> \<bar>q\<bar> \<ge> 10 ^ 21" using assms by simp
  then have r: "toFixed2 h (Fin q) = (if q < 0 then ''-'' @ pt else pt)"
    unfolding toFixed2_def pt_def m_def n_def Let_def by simp
  have shape: "two_decimals pt" "two_decimals (''-'' @ pt)"
    and digits: "filter is_0_9 pt = m" "filter is_0_9 (''-'' @ pt) = m"
    unfolding pt_def using point_shape [OF m(1,2)] by blast+
  show "two_decimals (toFixed2 h (Fin q))"
    unfolding r using shape by (cases "q < 0") (simp_all only: if_True if_False)
  have "hundredths (toFixed2 h (Fin q)) = n"
    unfolding r hundredths_def using digits m(3)
    by (cases "q < 0") (simp_all only: if_True if_False)
  moreover have "0 \<le> \<lfloor>\<bar>q\<bar> * 100 + 1 / 2\<rfloor>" by simp
  ultimately have "real (hundredths (toFixed2 h (Fin q))) = of_int \<lfloor>\<bar>q\<bar> * 100 + 1 / 2\<rfloor>"
    unfolding n_def by simp
  then show "\<bar>real (hundredths (toFixed2 h (Fin q))) - 100 * \<bar>q\<bar>\<bar> \<le> 1 / 2"
    by linarith
  from m(1,2) have "hd pt \<noteq> CHR ''-''"
    unfolding pt_def by (cases m) (auto simp: is_0_9_def)
  then show "(hd (toFixed2 h (Fin q)) = CHR ''-'') = (q < 0)"
    unfolding r by (cases "q < 0") simp_all
qed

lemma evaluateFormula_number:
  assumes "whitelisted fml"
    and "Function_call h (map fst variables) (''return '' @ fml) (map snd variables) = Returns (JNumber n)"
  shows "evaluateFormula h fml variables = (if n = NaN then ''Error'' else toFixed2 h n)"
  using assms by (simp add: evaluateFormula_def)














lemma overlap_sym: "overlap a b \<longleftrightarrow> overlap b a"
  by (auto simp: overlap_def hits_def)

lemma distinct_ids_eq:
  assumes "distinct (map id_w ws)" and "a \<in> set ws" and "b \<in> set ws" and "id_w a = id_w b"
  shows "a = b"
  using assms by (meson distinct_map inj_onD)

lemma keeps_place_inv:
  assumes "placement_inv T s" and "keeps_place f"
  shows "placement_inv T (s\<lparr>widgets := map f (widgets s)\<rparr>)"
proof -
  from assms(2) have ids: "id_w \<circ> f = id_w"
    by (auto simp: keeps_place_def)
  from assms(2) have ov: "overlap (f a) (f b) = overlap a b" for a b
    by (simp add: keeps_place_def overlap_def hits_def)
  from assms show ?thesis
    unfolding placement_inv_def
    by (simp add: ids ov) (auto simp: keeps_place_def)
qed

lemma keeps_place_edits:
  "keeps_place (\<lambda>w. if P w then w\<lparr>name := n\<rparr> else w)"
  "keeps_place (\<lambda>w. if P w then w\<lparr>score := v\<rparr> else w)"
  "keeps_place (\<lambda>w. if P w then w\<lparr>formula := f\<rparr> else w)"
  by (simp_all add: keeps_place_def)

lemma show_nat_inj: "show_nat m = show_nat n \<Longrightarrow> m = n"
  by (metis show_nat_value)

lemma dragOver_inv:
  assumes "placement_inv T s"
  shows "placement_inv T (handleDragOver e s)"
proof (cases "draggingWidget s")
  case None
  with assms show ?thesis by (simp add: handleDragOver_def)
next
  case (Some d)
  define cx where "cx = candidate (clientX e) (rect_left e) (offsetX d) GRID_COLS (width d)"
  define cy where "cy = candidate (clientY e) (rect_top e) (offsetY d) GRID_ROWS (height d)"
  define mv :: "Widget \<Rightarrow> Widget" where "mv = (\<lambda>w. if id_w w = id_w d then w\<lparr>x := cx, y := cy\<rparr> else w)"
  show ?thesis
  proof (cases "\<not> list_ex (\<lambda>existing. id_w existing \<noteq> id_w d \<and>
                   hits cx cy (width d) (height d) existing) (widgets s) \<and> \<not> isNew d")
    case False
    with Some assms show ?thesis
      unfolding handleDragOver_def cx_def cy_def Let_def by auto
  next
    case True
    then have free: "\<And>b. b \<in> set (widgets s) \<Longrightarrow> id_w b \<noteq> id_w d \<Longrightarrow>
                         \<not> hits cx cy (width d) (height d) b"
      and old: "\<not> isNew d"
      by (auto simp: list_ex_iff)
    from True Some have res: "handleDragOver e s = s\<lparr>widgets := map mv (widgets s)\<rparr>"
      unfolding handleDragOver_def cx_def cy_def mv_def Let_def by simp
    from assms Some old have dims:
      "\<And>w. w \<in> set (widgets s) \<Longrightarrow> id_w w = id_w d \<Longrightarrow> width w = width d \<and> height w = height d"
      unfolding placement_inv_def by blast
    have ids: "id_w \<circ> mv = id_w"
      by (auto simp: mv_def)
    have id_mv: "id_w (mv w) = id_w w" and w_mv: "width (mv w) = width w"
      and h_mv: "height (mv w) = height w" for w
      by (simp_all add: mv_def)
    have ov: "\<not> overlap (mv a) (mv b)"
      if a: "a \<in> set (widgets s)" and b: "b \<in> set (widgets s)" and ne: "id_w a \<noteq> id_w b" for a b
    proof -
      from assms a b ne have old_ov: "\<not> overlap a b"
        unfolding placement_inv_def by blast
      consider "id_w a = id_w d" | "id_w b = id_w d" | "id_w a \<noteq> id_w d" "id_w b \<noteq> id_w d"
        by blast
      then show ?thesis
      proof cases
        case 1
        with ne have nb: "id_w b \<noteq> id_w d" by simp
        from free [OF b nb] dims [OF a 1] 1 nb show ?thesis
          by (simp add: overlap_def mv_def hits_def)
      next
        case 2
        with ne have na: "id_w a \<noteq> id_w d" by simp
        from free [OF a na] dims [OF b 2] 2 na have "\<not> overlap (mv b) (mv a)"
          by (simp add: overlap_def mv_def hits_def)
        then show ?thesis using overlap_sym by blast
      next
        case 3
        with old_ov show ?thesis by (simp add: mv_def)
      qed
    qed
    from assms show ?thesis
      unfolding res placement_inv_def
      by (simp add: ids) (use ov id_mv w_mv h_mv in auto)
  qed
qed

lemma drop_inv:
  assumes "placement_inv T s" and "now \<notin> T"
  shows "placement_inv (insert now T) (handleDrop e now r1 r2 s)"
proof (cases "draggingWidget s")
  case None
  with assms show ?thesis
    unfolding handleDrop_def placement_inv_def by auto
next
  case (Some d)
  define cx where "cx = candidate (clientX e) (rect_left e) (offsetX d) GRID_COLS (width d)"
  define cy where "cy = candidate (clientY e) (rect_top e) (offsetY d) GRID_ROWS (height d)"
  define nw where "nw = (Widget.truncate d)
                       \<lparr>id_w := ''widget-'' @ show_nat now, x := cx, y := cy,
                        name := (if type d = score_type
                                 then generateRandomName r1 (widgets s) else []),
                        score := (if type d = score_type
                                  then generateRandomScore r2 else Fin 0)\<rparr>"
  have nw: "id_w nw = ''widget-'' @ show_nat now" "x nw = cx" "y nw = cy"
    "width nw = width d" "height nw = height d"
    by (simp_all add: nw_def Widget.truncate_def)
  show ?thesis
  proof (cases "isNew d \<and> \<not> list_ex (hits cx cy (width nw) (height nw)) (widgets s)")
    case False
    with Some have "handleDrop e now r1 r2 s = s\<lparr>draggingWidget := None\<rparr>"
      unfolding handleDrop_def cx_def cy_def nw_def Let_def by auto
    with assms show ?thesis
      unfolding placement_inv_def by auto
  next
    case True
    with Some have res: "handleDrop e now r1 r2 s =
        s\<lparr>widgets := widgets s @ [nw], draggingWidget := None\<rparr>"
      unfolding handleDrop_def cx_def cy_def nw_def Let_def by simp
    from True have free: "\<And>b. b \<in> set (widgets s) \<Longrightarrow> \<not> overlap nw b"
      by (auto simp: list_ex_iff overlap_def nw)
    have fresh: "id_w w \<noteq> id_w nw" if "w \<in> set (widgets s)" for w
    proof
      assume eq: "id_w w = id_w nw"
      from assms(1) that obtain t where "t \<in> T" and "id_w w = ''widget-'' @ show_nat t"
        unfolding placement_inv_def by blast
      with eq nw(1) have "show_nat t = show_nat now" by simp
      then have "t = now" by (rule show_nat_inj)
      with \<open>t \<in> T\<close> assms(2) show False by simp
    qed
    from assms(1) have old: "distinct (map id_w (widgets s))"
      "\<And>w. w \<in> set (widgets s) \<Longrightarrow> \<exists>t \<in> T. id_w w = ''widget-'' @ show_nat t"
      "\<And>a b. a \<in> set (widgets s) \<Longrightarrow> b \<in> set (widgets s) \<Longrightarrow> id_w a \<noteq> id_w b \<Longrightarrow> \<not> overlap a b"
      "listeners s = []"
      unfolding placement_inv_def by blast+
    have 1: "distinct (map id_w (widgets s @ [nw]))"
      using old(1) fresh by fastforce
    have 2: "\<exists>t \<in> insert now T. id_w w = ''widget-'' @ show_nat t" if "w \<in> set (widgets s @ [nw])" for w
      using that old(2) nw(1) by auto
    have 3: "\<not> overlap a b"
      if "a \<in> set (widgets s @ [nw])" "b \<in> set (widgets s @ [nw])" "id_w a \<noteq> id_w b" for a b
      using that old(3) free overlap_sym by auto
    show ?thesis
      unfolding res placement_inv_def using 1 2 3 old(4) by simp
  qed
qed

lemma dragStart_widget_inv:
  assumes "placement_inv T s" and "i < length (widgets s)"
  shows "placement_inv T (handleDragStart e (widgets s ! i) False s)"
proof -
  from assms(2) have mem: "widgets s ! i \<in> set (widgets s)" by simp
  from assms(1) have d: "distinct (map id_w (widgets s))"
    unfolding placement_inv_def by blast
  have "w = widgets s ! i" if "w \<in> set (widgets s)" "id_w w = id_w (widgets s ! i)" for w
    using distinct_ids_eq [OF d that(1) mem that(2)] .
  with assms(1) show ?thesis
    unfolding placement_inv_def handleDragStart_def
    by (auto simp: Widget.extend_def DraggingWidget.fields_def)
qed

lemma delete_inv:
  assumes "placement_inv T s"
  shows "placement_inv T (handleDelete widgetId s)"
  using assms unfolding placement_inv_def handleDelete_def
  by (auto simp: distinct_map_filter)

lemma step_inv:
  assumes "placement_inv T s" and "\<not> is_resize ev" and "set (stamps [ev]) \<inter> T = {}"
  shows "placement_inv (T \<union> set (stamps [ev])) (step ev s)"
proof (cases ev)
  case (DragStartLibrary i r e)
  with assms(1) show ?thesis
    by (auto simp: placement_inv_def handleDragStart_def Widget.extend_def
        DraggingWidget.fields_def)
next
  case (DragStartWidget i e)
  with assms(1) show ?thesis by (simp add: dragStart_widget_inv)
next
  case (DragOver e)
  with assms(1) show ?thesis by (simp add: dragOver_inv)
next
  case (Drop e now r1 r2)
  with assms show ?thesis by (simp add: drop_inv)
next
  case (ResizeMouseDown i e)
  with assms(2) show ?thesis by simp
next
  case (MouseMove e)
  with assms(1) show ?thesis
    by (simp add: placement_inv_def mousemove_def)
next
  case MouseUp
  with assms(1) show ?thesis
    by (simp add: placement_inv_def mouseup_def)
next
  case (Delete i)
  with assms(1) show ?thesis by (simp add: delete_inv)
next
  case (NameChange i v)
  with assms(1) show ?thesis
    by (simp add: name_onChange_def Let_def keeps_place_inv keeps_place_edits)
next
  case (ScoreChange i v)
  with assms(1) show ?thesis
    by (simp add: score_onChange_def keeps_place_inv keeps_place_edits)
next
  case (RandomClick i r)
  with assms(1) show ?thesis
    by (simp add: random_onClick_def keeps_place_inv keeps_place_edits)
next
  case (FormulaChange i v)
  with assms(1) show ?thesis
    by (simp add: formula_onChange_def keeps_place_inv keeps_place_edits)
next
  case (InsertVariable i j textarea)
  with assms(1) show ?thesis
    by (auto simp: insertIntoFormula_def Let_def keeps_place_inv keeps_place_edits
        split: option.splits)
qed

lemma stamps_Cons: "stamps (ev # evs) = stamps [ev] @ stamps evs"
  by (cases ev) simp_all

lemma run_inv:
  assumes "placement_inv T s" and "\<forall>ev \<in> set evs. \<not> is_resize ev"
    and "distinct (stamps evs)" and "set (stamps evs) \<inter> T = {}"
  shows "placement_inv (T \<union> set (stamps evs)) (run evs s)"
  using assms
proof (induction evs arbitrary: s T)
  case Nil
  then show ?case by (simp add: run_def)
next
  case (Cons ev evs)
  from Cons.prems(3,4) have here: "set (stamps [ev]) \<inter> T = {}"
    and rest: "distinct (stamps evs)" "set (stamps evs) \<inter> (T \<union> set (stamps [ev])) = {}"
    by (auto simp: stamps_Cons [of ev evs])
  from Cons.prems(1,2) here have "placement_inv (T \<union> set (stamps [ev])) (step ev s)"
    by (simp add: step_inv)
  from Cons.IH [OF this _ rest] Cons.prems(2)
  have "placement_inv (T \<union> set (stamps [ev]) \<union> set (stamps evs)) (run evs (step ev s))"
    by simp
  then show ?case
    by (simp add: run_def stamps_Cons [of ev evs] Un_assoc)
qed

lemma candidate_range:
  assumes "extent \<le> n"
  shows "0 \<le> candidate client origin offset n extent"
    and "candidate client origin offset n extent + extent \<le> n"
    and "candidate client origin offset n extent =
           (if \<lfloor>(client - origin - offset) / CELL_SIZE\<rfloor> < 0 then 0
            else if n - extent < \<lfloor>(client - origin - offset) / CELL_SIZE\<rfloor> then n - extent
            else \<lfloor>(client - origin - offset) / CELL_SIZE\<rfloor>)"
proof -
  define f where "f = \<lfloor>(client - origin - offset) / CELL_SIZE\<rfloor>"
  have c: "candidate client origin offset n extent = max 0 (min f (n - extent))"
    by (simp add: candidate_def f_def)
  from assms show "0 \<le> candidate client origin offset n extent"
    and "candidate client origin offset n extent + extent \<le> n"
    unfolding c by simp_all
  from assms have "max 0 (min f (n - extent)) =
      (if f < 0 then 0 else if n - extent < f then n - extent else f)"
    by auto
  then show "candidate client origin offset n extent =
           (if \<lfloor>(client - origin - offset) / CELL_SIZE\<rfloor> < 0 then 0
            else if n - extent < \<lfloor>(client - origin - offset) / CELL_SIZE\<rfloor> then n - extent
            else \<lfloor>(client - origin - offset) / CELL_SIZE\<rfloor>)"
    unfolding c f_def .
qed

subsection \<open>The character whitelist of the formula evaluator\<close>



subsection \<open>Delete\<close>

text \<open>
  Claim C10. \<open>handleDelete\<close> removes the widgets whose id is the given one and nothing
  else: the store after is the store before with elements left out (so the widgets kept have
  all their fields and their order), every widget with another id is kept as often as it
  occurred, no widget with the given id is kept, the drag and resize state is untouched, and
  deleting an id that no widget has leaves the state as it was.
\<close>

theorem handleDelete_frame:
  "subseq (widgets (handleDelete widgetId s)) (widgets s) \<and>
   (\<forall>w. count_list (widgets (handleDelete widgetId s)) w =
        (if id_w w = widgetId then 0 else count_list (widgets s) w)) \<and>
   draggingWidget (handleDelete widgetId s) = draggingWidget s \<and>
   listeners (handleDelete widgetId s) = listeners s \<and>
   (widgetId \<notin> id_w ` set (widgets s) \<longrightarrow> handleDelete widgetId s = s)"
proof -
  have cnt: "count_list (filter P ws) w = (if P w then count_list ws w else 0)"
    for P and ws :: "Widget list" and w
    by (induction ws) auto
  have same: "widgetId \<notin> id_w ` set ws \<Longrightarrow> filter (\<lambda>w. id_w w \<noteq> widgetId) ws = ws"
    for ws :: "Widget list"
    by (induction ws) auto
  show ?thesis
    by (auto simp: handleDelete_def cnt same)
qed

theorem handleDelete_frame_witness:
  "''widget-1700000000009'' \<notin> id_w ` set (widgets (run two_widgets initial)) \<and>
   handleDelete ''widget-1700000000009'' (run two_widgets initial) = run two_widgets initial \<and>
   widgets (handleDelete ''widget-1700000000001'' (run two_widgets initial)) = [the_score]"
proof -
  have absent: "''widget-1700000000009'' \<notin> id_w ` set (widgets (run two_widgets initial))"
    by (simp add: two_widgets_run the_calculator_def the_score_def)
  have "widgets (handleDelete ''widget-1700000000001'' (run two_widgets initial)) = [the_score]"
    by (simp add: two_widgets_run handleDelete_def the_calculator_def the_score_def)
  with absent handleDelete_frame [of "''widget-1700000000009''" "run two_widgets initial"]
  show ?thesis by blast
qed

subsection \<open>Dropping a new item onto an occupied place\<close>

text \<open>
  Claim C4. While a new library item is being dragged, a drop whose clamped candidate
  rectangle shares a cell with an existing widget leaves the widget store exactly as it was,
  and so does every drag-over: a new item enters the store at a drop only.
\<close>

theorem new_item_drop_discarded:
  assumes "draggingWidget s = Some d" and "isNew d"
  shows "((\<exists>existing \<in> set (widgets s).
            cells (candidate (clientX e) (rect_left e) (offsetX d) GRID_COLS (width d))
                  (candidate (clientY e) (rect_top e) (offsetY d) GRID_ROWS (height d))
                  (width d) (height d) \<inter> cells_of existing \<noteq> {})
          \<longrightarrow> widgets (handleDrop e now r1 r2 s) = widgets s) \<and>
         widgets (handleDragOver e' s) = widgets s"
proof -
  have "widgets (handleDragOver e' s) = widgets s"
    using assms by (simp add: handleDragOver_def Let_def)
  moreover have "widgets (handleDrop e now r1 r2 s) = widgets s"
    if "existing \<in> set (widgets s)"
      and "cells (candidate (clientX e) (rect_left e) (offsetX d) GRID_COLS (width d))
                 (candidate (clientY e) (rect_top e) (offsetY d) GRID_ROWS (height d))
                 (width d) (height d) \<inter> cells_of existing \<noteq> {}" for existing
  proof -
    from that have "list_ex (hits (candidate (clientX e) (rect_left e) (offsetX d) GRID_COLS (width d))
                 (candidate (clientY e) (rect_top e) (offsetY d) GRID_ROWS (height d))
                 (width d) (height d)) (widgets s)"
      unfolding list_ex_iff using cells_meet_hits by blast
    then show ?thesis
      using assms by (simp add: handleDrop_def Let_def Widget.truncate_def)
  qed
  ultimately show ?thesis by blast
qed

theorem new_item_drop_discarded_witness:
  "widgets (handleDrop (over_grid 310 120) 1700000000003 0.01 0.42
              (run (two_widgets @ [DragStartLibrary 0 0.5 (grab 33 77 10 10)]) initial)) =
     [the_calculator, the_score] \<and>
   widgets (handleDragOver (over_grid 310 120)
              (run (two_widgets @ [DragStartLibrary 0 0.5 (grab 33 77 10 10)]) initial)) =
     [the_calculator, the_score]"
proof -
  let ?s = "run (two_widgets @ [DragStartLibrary 0 0.5 (grab 33 77 10 10)]) initial"
  have d: "draggingWidget ?s = Some dragged_score_item"
    unfolding dragging_run by simp
  have new: "isNew dragged_score_item"
    by (simp add: dragged_score_item_def)
  have ws: "widgets ?s = [the_calculator, the_score]"
    unfolding dragging_run by simp
  have "(3, 1) \<in> cells (candidate 410 100 10 GRID_COLS 2) (candidate 320 200 10 GRID_ROWS 1) 2 1 \<inter>
                  cells_of the_calculator"
    by (simp add: cells_def cells_of_def candidate_def the_calculator_def GRID_COLS_def
        GRID_ROWS_def CELL_SIZE_def)
  then have "\<exists>existing \<in> set (widgets ?s).
               cells (candidate (clientX (over_grid 310 120)) (rect_left (over_grid 310 120))
                        (offsetX dragged_score_item) GRID_COLS (width dragged_score_item))
                     (candidate (clientY (over_grid 310 120)) (rect_top (over_grid 310 120))
                        (offsetY dragged_score_item) GRID_ROWS (height dragged_score_item))
                     (width dragged_score_item) (height dragged_score_item) \<inter>
               cells_of existing \<noteq> {}"
    unfolding ws by (auto simp: over_grid_def dragged_score_item_def)
  with new_item_drop_discarded [OF d new, of "over_grid 310 120" 1700000000003 "0.01" "0.42" "over_grid 310 120"] ws
  show ?thesis by simp
qed

subsection \<open>Editing a name\<close>

text \<open>
  Claim C7. The name input keeps the letters \<open>a-z\<close> and \<open>A-Z\<close> of the text, in order
  and in lower case, and nothing else. If a widget with another id already has that name, the
  whole state is left unchanged; otherwise the name of the edited widget becomes that text and
  nothing else changes.
\<close>

theorem name_edit:
  "\<exists>nm. nm = map toLowerCase_char (filter (\<lambda>c. is_a_z c \<or> is_A_Z c) v) \<and>
        list_all is_a_z nm \<and>
        ((\<exists>w \<in> set (widgets s). id_w w \<noteq> id_w widget \<and> name w = nm)
           \<longrightarrow> name_onChange widget v s = s) \<and>
        (\<not> (\<exists>w \<in> set (widgets s). id_w w \<noteq> id_w widget \<and> name w = nm)
           \<longrightarrow> name_onChange widget v s =
                 s\<lparr>widgets := map (\<lambda>w. if id_w w = id_w widget then w\<lparr>name := nm\<rparr> else w)
                                 (widgets s)\<rparr>)"
proof -
  have "list_all is_a_z (filter is_a_z (toLowerCase v))"
    by (simp add: list_all_iff)
  moreover have "(\<exists>w \<in> set (widgets s). id_w w \<noteq> id_w widget \<and> name w = filter is_a_z (toLowerCase v))
           \<Longrightarrow> name_onChange widget v s = s"
    by (subst name_onChange_cases) (rule if_P)
  moreover have "\<not> (\<exists>w \<in> set (widgets s). id_w w \<noteq> id_w widget \<and> name w = filter is_a_z (toLowerCase v))
           \<Longrightarrow> name_onChange widget v s =
                 s\<lparr>widgets := map (\<lambda>w. if id_w w = id_w widget then w\<lparr>name := filter is_a_z (toLowerCase v)\<rparr> else w)
                                 (widgets s)\<rparr>"
    by (subst name_onChange_cases) (rule if_not_P)
  ultimately show ?thesis
    unfolding sanitize_letters [symmetric] by blast
qed

theorem name_edit_witness:
  "name_onChange the_score ''Dog 7!'' (run two_widgets initial) =
     \<lparr>widgets = [the_calculator, the_score\<lparr>name := ''dog''\<rparr>], draggingWidget = None,
      listeners = []\<rparr> \<and>
   name_onChange the_calculator ''CAT'' (run two_widgets initial) = run two_widgets initial"
proof -
  have san1: "map toLowerCase_char (filter (\<lambda>c. is_a_z c \<or> is_A_Z c) ''Dog 7!'') = ''dog''"
    by code_simp
  have san2: "map toLowerCase_char (filter (\<lambda>c. is_a_z c \<or> is_A_Z c) ''CAT'') = ''cat''"
    by code_simp
  have free: "\<not> (\<exists>w \<in> set (widgets (run two_widgets initial)).
                   id_w w \<noteq> id_w the_score \<and> name w = ''dog'')"
    by (simp add: two_widgets_run the_calculator_def the_score_def)
  have taken: "\<exists>w \<in> set (widgets (run two_widgets initial)).
                   id_w w \<noteq> id_w the_calculator \<and> name w = ''cat''"
    by (simp add: two_widgets_run the_calculator_def the_score_def)
  from name_edit [of "''Dog 7!''" "run two_widgets initial" the_score] free
  have "name_onChange the_score ''Dog 7!'' (run two_widgets initial) =
          (run two_widgets initial)\<lparr>widgets :=
             map (\<lambda>w. if id_w w = id_w the_score then w\<lparr>name := ''dog''\<rparr> else w)
               (widgets (run two_widgets initial))\<rparr>"
    unfolding san1 by blast
  moreover from name_edit [of "''CAT''" "run two_widgets initial" the_calculator] taken
  have "name_onChange the_calculator ''CAT'' (run two_widgets initial) = run two_widgets initial"
    unfolding san2 by blast
  ultimately show ?thesis
    by (simp add: two_widgets_run the_calculator_def the_score_def)
qed

text \<open>
  Claim C8, as amended. The check compares the new name with the name of every widget with
  another id, whatever its type, and the empty name is not exempt: an edit whose sanitized
  text is empty is rejected when some other widget (a calculator, for one) has the empty
  name, and accepted otherwise.
\<close>

theorem empty_name_not_exempt:
  assumes "filter is_a_z (toLowerCase v) = []"
  shows "((\<exists>w \<in> set (widgets s). id_w w \<noteq> id_w widget \<and> name w = [])
            \<longrightarrow> name_onChange widget v s = s) \<and>
         (\<not> (\<exists>w \<in> set (widgets s). id_w w \<noteq> id_w widget \<and> name w = [])
            \<longrightarrow> name_onChange widget v s =
                  s\<lparr>widgets := map (\<lambda>w. if id_w w = id_w widget then w\<lparr>name := []\<rparr> else w)
                                  (widgets s)\<rparr>)"
proof (intro conjI impI)
  assume "\<exists>w \<in> set (widgets s). id_w w \<noteq> id_w widget \<and> name w = []"
  then show "name_onChange widget v s = s"
    by (subst name_onChange_cases) (simp only: assms if_True)
next
  assume "\<not> (\<exists>w \<in> set (widgets s). id_w w \<noteq> id_w widget \<and> name w = [])"
  then show "name_onChange widget v s =
                  s\<lparr>widgets := map (\<lambda>w. if id_w w = id_w widget then w\<lparr>name := []\<rparr> else w)
                                  (widgets s)\<rparr>"
    by (subst name_onChange_cases) (simp only: assms if_False)
qed

theorem empty_name_not_exempt_witness:
  "name_onChange the_score [] (run two_widgets initial) = run two_widgets initial \<and>
   name_onChange the_score []
     \<lparr>widgets = [the_score], draggingWidget = None, listeners = []\<rparr> =
     \<lparr>widgets = [the_score\<lparr>name := []\<rparr>], draggingWidget = None, listeners = []\<rparr>"
proof -
  have san: "filter is_a_z (toLowerCase []) = []"
    by (simp add: toLowerCase_def)
  have other: "\<exists>w \<in> set (widgets (run two_widgets initial)). id_w w \<noteq> id_w the_score \<and> name w = []"
    by (simp add: two_widgets_run the_calculator_def the_score_def)
  have alone: "\<not> (\<exists>w \<in> set (widgets \<lparr>widgets = [the_score], draggingWidget = None, listeners = []\<rparr>).
                     id_w w \<noteq> id_w the_score \<and> name w = [])"
    by simp
  from empty_name_not_exempt [OF san, of "run two_widgets initial" the_score] other
  have "name_onChange the_score [] (run two_widgets initial) = run two_widgets initial"
    by blast
  moreover from empty_name_not_exempt [OF san,
      of "\<lparr>widgets = [the_score], draggingWidget = None, listeners = []\<rparr>" the_score] alone
  have "name_onChange the_score []
     \<lparr>widgets = [the_score], draggingWidget = None, listeners = []\<rparr> =
     \<lparr>widgets = [the_score\<lparr>name := []\<rparr>], draggingWidget = None, listeners = []\<rparr>"
    by simp
  ultimately show ?thesis by blast
qed

text \<open>
  The claim as it was stated fails in the session above: with a calculator in the store,
  clearing the name of the score widget is rejected and the name stays \<open>cat\<close>.
\<close>

theorem empty_name_rejected_counterexample:
  "widgets (run (two_widgets @ [NameChange 1 []]) initial) = [the_calculator, the_score] \<and>
   type the_calculator = calculator \<and> name the_calculator = [] \<and> name the_score = ''cat''"
  unfolding run_append two_widgets_run
  by (simp add: run_def name_onChange_def toLowerCase_def the_calculator_def the_score_def)

subsection \<open>Formula results\<close>

text \<open>
  Claim C5, as amended. \<open>evaluateFormula\<close> on \<open>a / 0\<close> with \<open>{a: 10}\<close> returns
  \<open>'Infinity'\<close>: the division yields \<open>Infinity\<close>, which \<open>isNaN\<close> lets through and
  \<open>toFixed\<close> prints by name. This holds on the host of the arithmetic fragment, and on
  every host whose call returns \<open>Infinity\<close>.
\<close>

theorem division_by_zero_is_Infinity:
  "arith_eval [''a''] ''return a / 0'' [Fin 10] = Some (Returns (JNumber PosInf)) \<and>
   evaluateFormula arith_host ''a / 0'' [(''a'', Fin 10)] = ''Infinity'' \<and>
   (\<forall>h. Function_call h [''a''] ''return a / 0'' [Fin 10] = Returns (JNumber PosInf)
        \<longrightarrow> evaluateFormula h ''a / 0'' [(''a'', Fin 10)] = ''Infinity'')"
proof -
  have "arith_eval [''a''] ''return a / 0'' [Fin 10] = Some (Returns (JNumber PosInf))"
    by code_simp
  moreover have "evaluateFormula arith_host ''a / 0'' [(''a'', Fin 10)] = ''Infinity''"
    by code_simp
  moreover have "whitelisted ''a / 0''" by code_simp
  then have "evaluateFormula h ''a / 0'' [(''a'', Fin 10)] = ''Infinity''"
    if "Function_call h [''a''] ''return a / 0'' [Fin 10] = Returns (JNumber PosInf)" for h
    using that by (simp add: evaluateFormula_def toFixed2_def)
  ultimately show ?thesis by blast
qed

theorem division_by_zero_is_Infinity_witness:
  "Function_call arith_host [''a''] ''return a / 0'' [Fin 10] = Returns (JNumber PosInf) \<and>
   evaluateFormula arith_host ''a / 0'' [(''a'', Fin 10)] = ''Infinity''"
proof -
  have "Function_call arith_host [''a''] ''return a / 0'' [Fin 10] = Returns (JNumber PosInf)"
    by code_simp
  with division_by_zero_is_Infinity show ?thesis by blast
qed

text \<open>The claim as it was stated, that the result is \<open>'Error'\<close>, fails.\<close>

theorem division_by_zero_counterexample:
  "evaluateFormula arith_host ''a / 0'' [(''a'', Fin 10)] \<noteq> ''Error''"
  by code_simp

text \<open>
  Claim C9, as amended. \<open>evaluateFormula\<close> on \<open>a + b\<close> with \<open>{a: 10, b: 5}\<close> returns
  \<open>'15.00'\<close>. Whenever the call returns a finite number \<open>q\<close> of magnitude below
  \<open>10^21\<close>, the returned string has exactly two decimal places, denotes the number of
  hundredths nearest to \<open>|q|\<close>, and starts with a minus sign exactly when \<open>q\<close> is negative.
\<close>

theorem evaluateFormula_formats:
  "evaluateFormula arith_host ''a + b'' [(''a'', Fin 10), (''b'', Fin 5)] = ''15.00'' \<and>
   (\<forall>h fml variables q.
      whitelisted fml \<and>
      Function_call h (map fst variables) (''return '' @ fml) (map snd variables) =
        Returns (JNumber (Fin q)) \<and> \<bar>q\<bar> < 10 ^ 21
      \<longrightarrow> two_decimals (evaluateFormula h fml variables) \<and>
          \<bar>real (hundredths (evaluateFormula h fml variables)) - 100 * \<bar>q\<bar>\<bar> \<le> 1 / 2 \<and>
          (hd (evaluateFormula h fml variables) = CHR ''-'') = (q < 0))"
proof -
  have "evaluateFormula arith_host ''a + b'' [(''a'', Fin 10), (''b'', Fin 5)] = ''15.00''"
    by code_simp
  then show ?thesis
    using toFixed2_finite by (simp add: evaluateFormula_number)
qed

theorem evaluateFormula_formats_witness:
  "whitelisted ''a * b - 1'' \<and>
   Function_call arith_host [''a'', ''b''] ''return a * b - 1'' [Fin 10, Fin 5] =
     Returns (JNumber (Fin 49)) \<and>
   evaluateFormula arith_host ''a * b - 1'' [(''a'', Fin 10), (''b'', Fin 5)] = ''49.00'' \<and>
   two_decimals ''49.00'' \<and> hundredths ''49.00'' = 4900"
proof -
  have w: "whitelisted ''a * b - 1''" by code_simp
  have c: "Function_call arith_host (map fst [(''a'', Fin 10), (''b'', Fin 5)])
             (''return '' @ ''a * b - 1'') (map snd [(''a'', Fin 10), (''b'', Fin 5)]) =
           Returns (JNumber (Fin 49))"
    by code_simp
  have v: "evaluateFormula arith_host ''a * b - 1'' [(''a'', Fin 10), (''b'', Fin 5)] = ''49.00''"
    by code_simp
  have h: "hundredths ''49.00'' = 4900" by code_simp
  have "\<bar>49 :: real\<bar> < 10 ^ 21" by simp
  with evaluateFormula_formats w c
  have "two_decimals (evaluateFormula arith_host ''a * b - 1'' [(''a'', Fin 10), (''b'', Fin 5)])"
    by blast
  with w c v h show ?thesis by simp
qed

text \<open>
  The claim as it was stated covers every numeric result that is not \<open>NaN\<close>; it fails for
  \<open>Infinity\<close>, a number that \<open>toFixed\<close> prints without decimal places.
\<close>

theorem infinity_not_two_decimals_counterexample:
  "whitelisted ''b / 0'' \<and>
   arith_eval [''b''] ''return b / 0'' [Fin 5] = Some (Returns (JNumber PosInf)) \<and>
   evaluateFormula arith_host ''b / 0'' [(''b'', Fin 5)] = ''Infinity'' \<and>
   \<not> two_decimals ''Infinity''"
  by code_simp

subsection \<open>Scores\<close>




subsection \<open>Placement\<close>

text \<open>
  Claim C1, as amended. After any session in which no resize handle is pressed and the
  drops read distinct time stamps, any two widgets of the store occupy disjoint sets of grid
  cells.
\<close>

theorem no_overlap_without_resize:
  assumes "\<forall>ev \<in> set evs. \<not> is_resize ev" and "distinct (stamps evs)"
  shows "\<forall>i j. i < j \<and> j < length (widgets (run evs initial)) \<longrightarrow>
           cells_of (widgets (run evs initial) ! i) \<inter> cells_of (widgets (run evs initial) ! j) = {}"
proof (intro allI impI)
  fix i j
  assume ij: "i < j \<and> j < length (widgets (run evs initial))"
  let ?ws = "widgets (run evs initial)"
  have "placement_inv {} initial"
    by (simp add: placement_inv_def initial_def)
  from run_inv [OF this assms] have inv: "placement_inv (set (stamps evs)) (run evs initial)"
    by simp
  then have d: "distinct (map id_w ?ws)"
    and sep: "\<And>a b. a \<in> set ?ws \<Longrightarrow> b \<in> set ?ws \<Longrightarrow> id_w a \<noteq> id_w b \<Longrightarrow> \<not> overlap a b"
    unfolding placement_inv_def by blast+
  from ij have len: "i < length (map id_w ?ws)" "j < length (map id_w ?ws)" and ne: "i \<noteq> j"
    by simp_all
  from nth_eq_iff_index_eq [OF d len] ne have "map id_w ?ws ! i \<noteq> map id_w ?ws ! j"
    by simp
  with ij have "id_w (?ws ! i) \<noteq> id_w (?ws ! j)" by simp
  with sep [of "?ws ! i" "?ws ! j"] ij have "\<not> overlap (?ws ! i) (?ws ! j)" by simp
  then show "cells_of (?ws ! i) \<inter> cells_of (?ws ! j) = {}"
    unfolding overlap_def using not_hits_disjoint [of "x (?ws ! i)" "y (?ws ! i)"
        "width (?ws ! i)" "height (?ws ! i)" "?ws ! j"]
    by (simp add: cells_of_def)
qed

theorem no_overlap_without_resize_witness:
  "distinct (stamps move_session) \<and>
   widgets (run move_session initial) = [the_calculator, the_score\<lparr>x := 6, y := 4\<rparr>] \<and>
   cells_of the_calculator \<inter> cells_of (the_score\<lparr>x := 6, y := 4\<rparr>) = {}"
proof -
  have 1: "\<forall>ev \<in> set move_session. \<not> is_resize ev"
    by (simp add: move_session_def two_widgets_def)
  have 2: "distinct (stamps move_session)"
    by (simp add: move_session_def two_widgets_def)
  from no_overlap_without_resize [OF 1 2]
  have "0 < (1::nat) \<and> 1 < length (widgets (run move_session initial)) \<longrightarrow>
        cells_of (widgets (run move_session initial) ! 0) \<inter>
        cells_of (widgets (run move_session initial) ! 1) = {}"
    by blast
  with 1 2 show ?thesis
    by (simp add: move_session_run)
qed

text \<open>
  The claim as it was stated includes resizes, and fails: a resize checks no other widget,
  and at rest after it the left widget covers the cell \<open>(2, 0)\<close> of its neighbour.
\<close>

theorem resize_overlap_counterexample:
  "draggingWidget (run resize_session initial) = None \<and>
   listeners (run resize_session initial) = [] \<and>
   (2, 0) \<in> cells_of (widgets (run resize_session initial) ! 0) \<inter>
            cells_of (widgets (run resize_session initial) ! 1)"
  by (simp add: resize_session_run cells_of_def cells_def)

text \<open>
  Claim C3, where the code departs from it. The clamp of \<open>handleDragOver\<close> uses the
  width of the snapshot in \<open>draggingWidget\<close>, which only a drop on the grid clears. After a
  drag that ended elsewhere and a resize to the full width, a drag-over of the grid moves
  the widget to column 6 with width 8, outside the grid.
\<close>

theorem stale_drag_out_of_bounds:
  "widgets (run stale_drag_session initial) =
     [\<lparr>id_w = ''widget-1700000000001'', x = 6, y = 0, width = 8, height = 1,
       type = score_type, title = ''Score'', name = ''cat'', score = Fin 42, formula = []\<rparr>] \<and>
   \<not> in_bounds (widgets (run stale_drag_session initial) ! 0)"
  by (simp add: stale_drag_session_def in_bounds_def session_simps)

text \<open>
  With current snapshots the clamps do keep every widget inside the grid: a drag-over whose
  snapshot has the size of the stored widget, a drop of an item that fits the grid, and a
  resize whose snapshot has the position of the stored widget.
\<close>

lemma dragOver_in_bounds:
  assumes "\<forall>w \<in> set (widgets s). in_bounds w"
    and "\<forall>d. draggingWidget s = Some d \<longrightarrow>
           (\<forall>w \<in> set (widgets s). id_w w = id_w d \<longrightarrow> width w = width d \<and> height w = height d)"
  shows "\<forall>w \<in> set (widgets (handleDragOver e s)). in_bounds w"
proof (cases "draggingWidget s")
  case None
  with assms(1) show ?thesis by (simp add: handleDragOver_def)
next
  case (Some d)
  have "in_bounds (w\<lparr>x := candidate (clientX e) (rect_left e) (offsetX d) GRID_COLS (width d),
                     y := candidate (clientY e) (rect_top e) (offsetY d) GRID_ROWS (height d)\<rparr>)"
    if w: "w \<in> set (widgets s)" and "id_w w = id_w d" for w
  proof -
    from assms(2) Some that have dims: "width w = width d" "height w = height d" by auto
    from assms(1) w have "in_bounds w" by blast
    with dims have fit: "width d \<le> GRID_COLS" "height d \<le> GRID_ROWS"
      by (auto simp: in_bounds_def)
    from candidate_range(1,2) [OF fit(1)] candidate_range(1,2) [OF fit(2)] dims
    show ?thesis by (simp add: in_bounds_def)
  qed
  with assms(1) Some show ?thesis
    by (auto simp: handleDragOver_def Let_def)
qed

lemma drop_in_bounds:
  assumes "\<forall>w \<in> set (widgets s). in_bounds w"
    and "\<forall>d. draggingWidget s = Some d \<longrightarrow> width d \<le> GRID_COLS \<and> height d \<le> GRID_ROWS"
  shows "\<forall>w \<in> set (widgets (handleDrop e now r1 r2 s)). in_bounds w"
proof (cases "draggingWidget s")
  case None
  with assms(1) show ?thesis by (simp add: handleDrop_def)
next
  case (Some d)
  with assms(2) have fit: "width d \<le> GRID_COLS" "height d \<le> GRID_ROWS" by auto
  from candidate_range(1,2) [OF fit(1)] candidate_range(1,2) [OF fit(2)] assms(1) Some
  show ?thesis
    by (auto simp: handleDrop_def Let_def Widget.truncate_def in_bounds_def)
qed

lemma resize_in_bounds:
  assumes "\<forall>w \<in> set ws. in_bounds w"
    and "\<forall>w \<in> set ws. id_w w = id_w (target l) \<longrightarrow>
           x w = x (target l) \<and> y w = y (target l) \<and> 2 \<le> width w \<and> 1 \<le> height w"
  shows "\<forall>w \<in> set (handleMouseMove l e ws). in_bounds w"
proof -
  have "in_bounds (w\<lparr>width := max 2 (min (width (target l) + dx) (GRID_COLS - x (target l))),
                     height := max 1 (min (height (target l) + dy) (GRID_ROWS - y (target l)))\<rparr>)"
    if w: "w \<in> set ws" and "id_w w = id_w (target l)" for w dx dy
  proof -
    from assms(2) that have "x w = x (target l)" "y w = y (target l)" "2 \<le> width w" "1 \<le> height w"
      by auto
    moreover from assms(1) w have "in_bounds w" by blast
    ultimately show ?thesis by (auto simp: in_bounds_def)
  qed
  with assms(1) show ?thesis
    by (auto simp: handleMouseMove_def Let_def)
qed

end
